theory Spec2Isabelle
  imports Complex_Main "HOL-Library.Word" "HOL-Library.AList" "HOL-Library.Signed_Division"
begin

section \<open>Karl: the data model\<close>

text \<open>
  The embedding follows \<^verbatim>\<open>Karl/karl.h\<close>. A \<^verbatim>\<open>std::chrono::microseconds\<close> value is an
  \<^typ>\<open>int\<close> (epoch microseconds; differences of clock readings stay far inside the range
  of the 64-bit counter, and where a number of the request enters a sum the wrap-around is
  written out), a \<^verbatim>\<open>uint16_t\<close> port is a \<^typ>\<open>16 word\<close>, a \<^verbatim>\<open>uint64_t\<close> stream
  index is a \<^typ>\<open>nat\<close>. The schema headers (\<^verbatim>\<open>schema_karl.h\<close>, \<^verbatim>\<open>schema_claire.h\<close>) are not
  part of the sources at hand; the records below carry the fields that \<^verbatim>\<open>karl.h\<close> reads
  and writes. A field of a stored row whose name a field of \<^verbatim>\<open>ClaireStatus\<close> has as well
  carries the initials of its record (\<open>ci_codename\<close> for the \<^verbatim>\<open>codename\<close> of a \<^verbatim>\<open>ClaireInfo\<close>).
\<close>

type_synonym microseconds = int

text \<open>Opaque payloads: only stored, copied and compared.\<close>

type_synonym build_Info = string
type_synonym runtime_status_variant_t = string

record ClaireServiceKey =
  ip :: string
  port :: "16 word"
  prefix :: string

record ClaireStatus =
  codename :: string
  service :: string
  local_port :: "16 word"
  dependencies :: "ClaireServiceKey list"
  build :: "build_Info option"
  start_time_epoch_microseconds :: microseconds
  uptime_epoch_microseconds :: microseconds
  uptime :: string
  last_successful_ping_epoch_microseconds :: "microseconds option"
  now :: microseconds

text \<open>\<^verbatim>\<open>claire_status_t = ClaireServiceStatus<Variant<TS...>>\<close>: a \<^verbatim>\<open>ClaireStatus\<close> with the
  optional \<^verbatim>\<open>runtime\<close> variant.\<close>

record claire_status_t = ClaireStatus +
  runtime :: "runtime_status_variant_t option"

datatype ClaireRegisteredState = Active | Deregistered | DisconnectedByTimeout

record ClaireInfo =
  ci_codename :: string
  ci_service :: string
  ci_location :: ClaireServiceKey
  reported_timestamp :: microseconds
  url_status_page_direct :: string
  registered_state :: ClaireRegisteredState

record ClaireBuildInfo =
  cb_codename :: string
  cb_build :: build_Info

record ServerInfo =
  si_ip :: string
  behind_this_by :: microseconds

record idxts_t =
  index :: nat
  us :: microseconds

record KarlInfo =
  up :: bool
  persisted_keepalives_info :: "idxts_t option"

text \<open>\<^verbatim>\<open>KarlPersistedKeepalive<claire_status_t>\<close>, and a stream entry as the persister's
  iterator yields it (\<^verbatim>\<open>e.idx_ts\<close>, \<^verbatim>\<open>e.entry\<close>).\<close>

record persisted_keepalive_t =
  location :: ClaireServiceKey
  keepalive :: claire_status_t

record stream_entry =
  idx_ts :: idxts_t
  entry :: persisted_keepalive_t

text \<open>Modelled from the spec: the default-constructed rows of \<^verbatim>\<open>schema_karl.h\<close>, which is
  not among the sources. Strings are empty and numbers zero; \<^verbatim>\<open>KarlInfo\<close> starts as
  \<open>up = true\<close> (it is what the constructor of Karl stores on startup). Every use in
  \<^verbatim>\<open>karl.h\<close> overwrites \<^verbatim>\<open>registered_state\<close> before the row is stored.\<close>

definition ClaireServiceKey_default :: ClaireServiceKey where
  "ClaireServiceKey_default = \<lparr>ip = [], port = 0, prefix = []\<rparr>"

definition ClaireInfo_default :: ClaireInfo where
  "ClaireInfo_default =
     \<lparr>ci_codename = [], ci_service = [], ci_location = ClaireServiceKey_default,
      reported_timestamp = 0, url_status_page_direct = [], registered_state = Active\<rparr>"

definition KarlInfo_default :: KarlInfo where
  "KarlInfo_default = \<lparr>up = True, persisted_keepalives_info = None\<rparr>"

subsection \<open>The keyed store (B)\<close>

text \<open>The tables of \<^verbatim>\<open>ServiceStorage\<close>: dictionaries of rows, each row filed under its own
  key field (the codename for claires and builds, the ip for servers), and the append-only
  list of Karl's own launch records. A table is the list of its rows; \<^verbatim>\<open>fields.claires[c]\<close>
  finds the row whose key is \<open>c\<close>, and \<^verbatim>\<open>Add\<close> is an upsert: it replaces the row with the
  same key.\<close>

record ServiceStorage =
  claires :: "ClaireInfo list"
  builds :: "ClaireBuildInfo list"
  servers :: "ServerInfo list"
  karl :: "KarlInfo list"

definition claires_get :: "ServiceStorage \<Rightarrow> string \<Rightarrow> ClaireInfo option" where
  "claires_get flds c = find (\<lambda>row. ci_codename row = c) (claires flds)"

definition builds_get :: "ServiceStorage \<Rightarrow> string \<Rightarrow> ClaireBuildInfo option" where
  "builds_get flds c = find (\<lambda>row. cb_codename row = c) (builds flds)"

definition servers_get :: "ServiceStorage \<Rightarrow> string \<Rightarrow> ServerInfo option" where
  "servers_get flds a = find (\<lambda>row. si_ip row = a) (servers flds)"

definition claires_Add :: "ClaireInfo \<Rightarrow> ServiceStorage \<Rightarrow> ServiceStorage" where
  "claires_Add claire flds =
     flds\<lparr>claires := claire # filter (\<lambda>row. ci_codename row \<noteq> ci_codename claire) (claires flds)\<rparr>"

definition builds_Add :: "ClaireBuildInfo \<Rightarrow> ServiceStorage \<Rightarrow> ServiceStorage" where
  "builds_Add b flds =
     flds\<lparr>builds := b # filter (\<lambda>row. cb_codename row \<noteq> cb_codename b) (builds flds)\<rparr>"

definition servers_Add :: "ServerInfo \<Rightarrow> ServiceStorage \<Rightarrow> ServiceStorage" where
  "servers_Add server flds =
     flds\<lparr>servers := server # filter (\<lambda>row. si_ip row \<noteq> si_ip server) (servers flds)\<rparr>"

definition karl_Add :: "KarlInfo \<Rightarrow> ServiceStorage \<Rightarrow> ServiceStorage" where
  "karl_Add self_info flds = flds\<lparr>karl := karl flds @ [self_info]\<rparr>"

subsection \<open>The keepalive stream (A)\<close>

datatype exn =
    NetworkException
  | TypeSystemParseJSONException
  | PublishToStreamWithReleasedPublisherException
  | InconsistentTimestampException

record stream_t =
  persistence :: "stream_entry list"
  publisher :: bool
  first_index :: nat

text \<open>\<^verbatim>\<open>StreamImpl::Publish\<close> of \<^verbatim>\<open>Sherlock/sherlock.h\<close>: it throws when the publisher has
  been released and hands the entry to the persister otherwise.

  Modelled from the spec: the persister behind the stream (\<^verbatim>\<open>Blocks/Persistence\<close>, not among
  the sources). Its \<^verbatim>\<open>Publish\<close> appends the entry, rejects a timestamp that is not above the
  last one, and returns the index and the timestamp it assigned; indexes grow by one from
  entry to entry. The index of the first entry is not settled by the sources at hand:
  \<^verbatim>\<open>sherlock.h\<close> and the specification call the index 1-based, \<^verbatim>\<open>karl.h\<close> speaks of the
  "record at index 0". It is the field \<open>first_index\<close> of the stream, and nothing below
  depends on its value unless it says so. \<^verbatim>\<open>Iterate(begin)\<close> yields the entries from position
  \<open>begin\<close> on; positions count from zero, as in the subscriber thread of \<^verbatim>\<open>sherlock.h\<close>,
  which iterates from \<open>0\<close> up to \<^verbatim>\<open>Size()\<close>.\<close>

definition Publish ::
  "persisted_keepalive_t \<Rightarrow> microseconds \<Rightarrow> stream_t \<Rightarrow> exn + (idxts_t \<times> stream_t)" where
  "Publish rec t s =
     (if \<not> publisher s then Inl PublishToStreamWithReleasedPublisherException
      else if persistence s \<noteq> [] \<and> t \<le> us (idx_ts (last (persistence s)))
        then Inl InconsistentTimestampException
      else
        (let result = \<lparr>index = first_index s + length (persistence s), us = t\<rparr>
         in Inr (result, s\<lparr>persistence := persistence s @ [\<lparr>idx_ts = result, entry = rec\<rparr>]\<rparr>)))"

definition Iterate :: "nat \<Rightarrow> stream_t \<Rightarrow> stream_entry list" where
  "Iterate begin_index s = drop begin_index (persistence s)"

subsection \<open>Karl's own state\<close>

text \<open>What a handler does besides changing the state is recorded, in program order, in
  the \<open>trace\<close>.\<close>

datatype event =
    SetDestructing
  | NotifyOne
  | Join
  | Published nat
  | Committed
  | OutboundGET string

record GenericKarl =
  destructing :: bool
  services_keepalive_time_cache :: "(string \<times> microseconds) list"
  latest_keepalive_index_plus_one :: "string \<rightharpoonup> nat"
  service_timeout_interval :: microseconds
  keepalives_stream :: stream_t
  storage :: ServiceStorage
  state_update_thread_joinable :: bool
  trace :: "event list"

text \<open>A read-write transaction runs its body on the tables and commits.\<close>

definition ReadWriteTransaction ::
  "(ServiceStorage \<Rightarrow> ServiceStorage) \<Rightarrow> GenericKarl \<Rightarrow> GenericKarl" where
  "ReadWriteTransaction f k = k\<lparr>storage := f (storage k), trace := trace k @ [Committed]\<rparr>"

definition notify_one :: "GenericKarl \<Rightarrow> GenericKarl" where
  "notify_one k = k\<lparr>trace := trace k @ [NotifyOne]\<rparr>"

text \<open>A response: the HTTP code and the payload handed to the serialiser. The JSON
  rendering itself belongs to the serialiser and is not modelled.\<close>

datatype payload =
    Text string
  | Error string
  | SnapshotOfKeepalive microseconds claire_status_t

record Response =
  code :: nat
  content :: payload

text \<open>\<^verbatim>\<open>current::ToString\<close> on an unsigned number: its decimal digits.\<close>

fun ToString :: "nat \<Rightarrow> string" where
  "ToString n =
     (if n < 10 then [''0123456789'' ! n]
      else ToString (n div 10) @ [''0123456789'' ! (n mod 10)])"

declare ToString.simps [simp del]

text \<open>What the handlers take from their surroundings: the clock, the outbound HTTP client,
  the parsers and the random device. \<open>Now\<close> is the value of \<^verbatim>\<open>current::time::Now()\<close> where a
  handler reads it into \<^verbatim>\<open>now\<close>; \<open>Publish_Now\<close> is the later reading that \<^verbatim>\<open>Publish\<close> takes as
  its default timestamp. \<open>HTTP_GET\<close> yields the body of the response, or nothing when the
  client throws a \<^verbatim>\<open>NetworkException\<close>. \<open>ParseJSON_ClaireStatus\<close> and
  \<open>ParseJSON_claire_status_t\<close> yield nothing when \<^verbatim>\<open>ParseJSON\<close> throws.
  \<open>FromString_microseconds\<close> is \<^verbatim>\<open>FromString<std::chrono::microseconds>\<close>, whose result is a
  signed 64-bit count. \<open>FromString_double\<close> is \<^verbatim>\<open>FromString<double>\<close>; a \<^verbatim>\<open>double\<close> is modelled
  by the real number it holds.\<close>

record env =
  Now :: microseconds
  Publish_Now :: microseconds
  HTTP_GET :: "string \<Rightarrow> string option"
  ParseJSON_ClaireStatus :: "string \<Rightarrow> ClaireStatus option"
  ParseJSON_claire_status_t :: "string \<Rightarrow> claire_status_t option"
  random_device :: nat
  FromString_uint16 :: "string \<Rightarrow> 16 word"
  FromString_microseconds :: "string \<Rightarrow> 64 word"
  FromString_double :: "string \<Rightarrow> real"
  TimeIntervalAsHumanReadableString :: "microseconds \<Rightarrow> string"
  kUpdateServerInfoThresholdByTimeSkewDifference :: nat
  DefaultMethodNotAllowedMessage :: string

text \<open>Modelled from the spec: \<^verbatim>\<open>current::random::CSRandomUInt(a, b)\<close> (\<^verbatim>\<open>Bricks/util/random.h\<close>,
  not among the sources) returns a random unsigned number in \<open>[a, b)\<close>, as the specification
  has it for the \<open>rnd\<close> component of the callback URL: "random u32 in [1e9, 2e9)". Which
  number of the range it is follows from the reading of the random device.\<close>

definition CSRandomUInt :: "env \<Rightarrow> nat \<Rightarrow> nat \<Rightarrow> nat" where
  "CSRandomUInt e a b = a + random_device e mod (b - a)"

subsection \<open>Arithmetic of the 64-bit microsecond counter\<close>

text \<open>The sums and differences of the status page involve numbers that the request supplies,
  so they can leave the range of the signed 64-bit \<^verbatim>\<open>std::chrono::microseconds\<close>. \<open>wrap64\<close>
  is the two's complement wrap-around of the result into \<open>[-2^63, 2^63)\<close>.
  \<open>static_cast_int64\<close> is \<^verbatim>\<open>static_cast<int64_t>\<close> on a \<^verbatim>\<open>double\<close>: the fraction is cut off
  (towards zero); a value outside the range, for which the conversion is not defined, is
  wrapped into it like the sums.\<close>

definition wrap64 :: "int \<Rightarrow> int" where
  "wrap64 x = (x + 2 ^ 63) mod 2 ^ 64 - 2 ^ 63"

definition static_cast_int64 :: "real \<Rightarrow> int" where
  "static_cast_int64 x = wrap64 (if 0 \<le> x then \<lfloor>x\<rfloor> else \<lceil>x\<rceil>)"

section \<open>The timeout reconciler\<close>

text \<open>The loop of \<^verbatim>\<open>StateUpdateThread\<close> over \<^verbatim>\<open>services_keepalive_time_cache_\<close>: an entry
  with \<open>now - last > service_timeout_interval\<close> is erased and its codename collected, any
  other entry stays and feeds \<^verbatim>\<open>most_recent_keepalive_time\<close>. The result is the cache after
  the loop, the collected codenames and the most recent time.\<close>

fun scan_cache ::
  "microseconds \<Rightarrow> microseconds \<Rightarrow> (string \<times> microseconds) list \<Rightarrow>
     string list \<Rightarrow> microseconds \<Rightarrow> (string \<times> microseconds) list \<times> string list \<times> microseconds" where
  "scan_cache t timeout [] timeouted most_recent = ([], timeouted, most_recent)"
| "scan_cache t timeout (it # rest) timeouted most_recent =
     (if (t - snd it) > timeout
      then scan_cache t timeout rest (List.insert (fst it) timeouted) most_recent
      else (case scan_cache t timeout rest timeouted (max (snd it) most_recent) of
              (cache, res) \<Rightarrow> (it # cache, res)))"

text \<open>The body of the transaction: one upsert for each timed-out codename.\<close>

definition mark_timeouted :: "string \<Rightarrow> ServiceStorage \<Rightarrow> ServiceStorage" where
  "mark_timeouted c flds =
     (let claire = (case claires_get flds c of
                      Some current_claire_info \<Rightarrow> current_claire_info
                    | None \<Rightarrow> ClaireInfo_default\<lparr>ci_codename := c\<rparr>)
      in claires_Add (claire\<lparr>registered_state := DisconnectedByTimeout\<rparr>) flds)"

text \<open>One iteration of the \<^verbatim>\<open>while (!destructing_)\<close> loop, with \<open>t\<close> the value of
  \<^verbatim>\<open>current::time::Now()\<close> at its start. \<^verbatim>\<open>UpdateNginxIfNeeded\<close> and the wait at the end of the
  iteration are left out: they read the store and the cache and write neither.\<close>

definition StateUpdateThread_iteration :: "microseconds \<Rightarrow> GenericKarl \<Rightarrow> GenericKarl" where
  "StateUpdateThread_iteration t k =
     (case scan_cache t (service_timeout_interval k) (services_keepalive_time_cache k) [] 0 of
        (cache, timeouted_codenames, most_recent_keepalive_time) \<Rightarrow>
          (let k1 = k\<lparr>services_keepalive_time_cache := cache\<rparr>
           in if timeouted_codenames \<noteq> []
              then ReadWriteTransaction (\<lambda>flds. fold mark_timeouted timeouted_codenames flds) k1
              else k1))"

section \<open>Requests\<close>

text \<open>A request as the handlers see it: HTTP verb (\<^verbatim>\<open>r.method\<close>), peer address, parsed
  query string, path arguments, body. The query is the list of key-value pairs in the order of the URL;
  \<^verbatim>\<open>std::map::insert\<close> keeps the first pair of a repeated key (\<^verbatim>\<open>net/url/url.h\<close>), and a
  missing key reads as the empty string.\<close>

record Request =
  http_method :: string
  remote_ip :: string
  query :: "(string \<times> string) list"
  url_path_args :: "string list"
  request_body :: string

definition has :: "(string \<times> string) list \<Rightarrow> string \<Rightarrow> bool" where
  "has qs key = (map_of qs key \<noteq> None)"

definition qs_get :: "(string \<times> string) list \<Rightarrow> string \<Rightarrow> string" where
  "qs_get qs key = (case map_of qs key of Some v \<Rightarrow> v | None \<Rightarrow> [])"

section \<open>DELETE: deregistration\<close>

definition deregister :: "string \<Rightarrow> ServiceStorage \<Rightarrow> ServiceStorage" where
  "deregister c flds =
     (let claire = (case claires_get flds c of
                      Some current_claire_info \<Rightarrow> current_claire_info
                    | None \<Rightarrow> ClaireInfo_default\<lparr>ci_codename := c\<rparr>)
      in claires_Add (claire\<lparr>registered_state := Deregistered\<rparr>) flds)"

definition Serve_DELETE :: "Request \<Rightarrow> GenericKarl \<Rightarrow> Response \<times> GenericKarl" where
  "Serve_DELETE r k =
     (let qs = query r in
      if has qs ''codename'' then
        (let c = qs_get qs ''codename'';
             k1 = ReadWriteTransaction (deregister c) k;
             k2 = k1\<lparr>services_keepalive_time_cache := AList.delete c (services_keepalive_time_cache k1)\<rparr>
         in (\<lparr>code = 200, content = Text (''OK'' @ [CHR 0x0A])\<rparr>, notify_one k2))
      else (\<lparr>code = 200, content = Text (''NOP'' @ [CHR 0x0A])\<rparr>, k))"

section \<open>POST: keepalive ingest\<close>

text \<open>Modelled from the spec: \<^verbatim>\<open>ClaireServiceKey::StatusPageURL()\<close> (\<^verbatim>\<open>schema_claire.h\<close>, not
  among the sources) is \<^verbatim>\<open>scheme://ip:port<prefix>.current\<close>.\<close>

definition StatusPageURL :: "ClaireServiceKey \<Rightarrow> string" where
  "StatusPageURL key =
     ''http://'' @ ip key @ '':'' @ ToString (unat (port key)) @ prefix key @ ''.current''"

text \<open>The three parts of the body of the read-write transaction of the ingest path.\<close>

definition update_server ::
  "env \<Rightarrow> ClaireServiceKey \<Rightarrow> microseconds option \<Rightarrow> ServiceStorage \<Rightarrow> ServiceStorage" where
  "update_server e loc optional_behind_this_by flds =
     (case optional_behind_this_by of
        None \<Rightarrow> flds
      | Some b \<Rightarrow>
          (let current_server_info = servers_get flds (ip loc);
               server = (case current_server_info of
                           Some v \<Rightarrow> v
                         | None \<Rightarrow> \<lparr>si_ip = ip loc, behind_this_by = 0\<rparr>);
               need_to_update =
                 (case current_server_info of
                    Some v \<Rightarrow>
                      \<not> (nat \<bar>behind_this_by v - b\<bar> < kUpdateServerInfoThresholdByTimeSkewDifference e)
                  | None \<Rightarrow> True)
           in if need_to_update then servers_Add (server\<lparr>behind_this_by := b\<rparr>) flds else flds))"

definition update_build :: "string \<Rightarrow> build_Info option \<Rightarrow> ServiceStorage \<Rightarrow> ServiceStorage" where
  "update_build c optional_build flds =
     (case optional_build of
        None \<Rightarrow> flds
      | Some b \<Rightarrow>
          (case builds_get flds c of
             None \<Rightarrow> builds_Add \<lparr>cb_codename = c, cb_build = b\<rparr> flds
           | Some cur \<Rightarrow>
               if cb_build cur \<noteq> b then builds_Add \<lparr>cb_codename = c, cb_build = b\<rparr> flds else flds))"

definition update_claire ::
  "microseconds \<Rightarrow> string \<Rightarrow> string \<Rightarrow> ClaireServiceKey \<Rightarrow> ServiceStorage \<Rightarrow> ServiceStorage" where
  "update_claire t c srv loc flds =
     (let current_claire_info = claires_get flds c;
          differs =
            (case current_claire_info of
               None \<Rightarrow> True
             | Some v \<Rightarrow>
                 if ci_location v \<noteq> loc then True
                 else if registered_state v \<noteq> Active then True
                 else False)
      in if differs then
           (let claire = (case current_claire_info of Some v \<Rightarrow> v | None \<Rightarrow> ClaireInfo_default)
            in claires_Add
                 (claire\<lparr>ci_codename := c, ci_service := srv, ci_location := loc,
                    reported_timestamp := t, url_status_page_direct := StatusPageURL loc,
                    registered_state := Active\<rparr>) flds)
         else flds)"

text \<open>The ingest proper, as the three steps the handler takes one after the other once the
  body has passed the consistency check: publish to the stream and remember the index,
  run the transaction on the store, refresh the reconciler's cache. A step that throws
  leaves the state as it found it.\<close>

definition publish_step ::
  "env \<Rightarrow> string \<Rightarrow> ClaireServiceKey \<Rightarrow> claire_status_t \<Rightarrow> GenericKarl \<Rightarrow> exn + GenericKarl"
  where
  "publish_step e c loc status k =
     (case Publish \<lparr>location = loc, keepalive = status\<rparr> (Publish_Now e) (keepalives_stream k) of
        Inl ex \<Rightarrow> Inl ex
      | Inr (result, s) \<Rightarrow>
          Inr (k\<lparr>keepalives_stream := s,
                 latest_keepalive_index_plus_one :=
                   (latest_keepalive_index_plus_one k)(c \<mapsto> index result),
                 trace := trace k @ [Published (index result)]\<rparr>))"

definition commit_step ::
  "env \<Rightarrow> ClaireStatus \<Rightarrow> ClaireServiceKey \<Rightarrow> GenericKarl \<Rightarrow> exn + GenericKarl" where
  "commit_step e body loc k =
     (let optional_behind_this_by =
            (case last_successful_ping_epoch_microseconds body of
               Some ping \<Rightarrow> Some (Now e - now body - ping sdiv 2)
             | None \<Rightarrow> None)
      in Inr (ReadWriteTransaction
                (\<lambda>flds. update_claire (Now e) (codename body) (service body) loc
                           (update_build (codename body) (build body)
                              (update_server e loc optional_behind_this_by flds))) k))"

definition cache_step :: "env \<Rightarrow> string \<Rightarrow> GenericKarl \<Rightarrow> exn + GenericKarl" where
  "cache_step e c k =
     (let placeholder = (case map_of (services_keepalive_time_cache k) c of Some v \<Rightarrow> v | None \<Rightarrow> 0);
          k1 = k\<lparr>services_keepalive_time_cache := AList.update c (Now e) (services_keepalive_time_cache k)\<rparr>
      in Inr (if placeholder = 0 then notify_one k1 else k1))"

fun run_steps :: "('s \<Rightarrow> exn + 's) list \<Rightarrow> 's \<Rightarrow> exn option \<times> 's" where
  "run_steps [] s = (None, s)"
| "run_steps (f # fs) s = (case f s of Inl ex \<Rightarrow> (Some ex, s) | Inr s' \<Rightarrow> run_steps fs s')"

text \<open>The status that is persisted: the detailed parse when it succeeds, the top-level
  one with an empty \<^verbatim>\<open>runtime\<close> otherwise.\<close>

definition status_of :: "env \<Rightarrow> string \<Rightarrow> ClaireStatus \<Rightarrow> claire_status_t" where
  "status_of e json body =
     (case ParseJSON_claire_status_t e json of
        Some status \<Rightarrow> status
      | None \<Rightarrow> ClaireStatus.extend body (claire_status_t.fields None))"

definition ingest_steps ::
  "env \<Rightarrow> string \<Rightarrow> string \<Rightarrow> ClaireStatus \<Rightarrow> (GenericKarl \<Rightarrow> exn + GenericKarl) list" where
  "ingest_steps e peer json body =
     (let loc = \<lparr>ip = peer, port = local_port body, prefix = ''/''\<rparr>
      in [publish_step e (codename body) loc (status_of e json body),
          commit_step e body loc,
          cache_step e (codename body)])"

text \<open>The \<^verbatim>\<open>catch\<close> clauses of the handler.\<close>

definition catch :: "exn \<Rightarrow> Response" where
  "catch ex =
     (case ex of
        NetworkException \<Rightarrow> \<lparr>code = 400, content = Text (''Callback error.'' @ [CHR 0x0A])\<rparr>
      | TypeSystemParseJSONException \<Rightarrow> \<lparr>code = 400, content = Text (''JSON parse error.'' @ [CHR 0x0A])\<rparr>
      | _ \<Rightarrow> \<lparr>code = 500, content = Text (''Karl registration error.'' @ [CHR 0x0A])\<rparr>)"

text \<open>The URL of the callback, and the choice of the status JSON: the body of the
  callback's response when the query has both \<^verbatim>\<open>confirm\<close> and \<^verbatim>\<open>port\<close>, the body of the
  request otherwise.\<close>

definition callback_url :: "env \<Rightarrow> Request \<Rightarrow> string" where
  "callback_url e r =
     (let url = ''http://'' @ remote_ip r @ [CHR '':''] @ qs_get (query r) ''port'' @ ''/.current''
      in url @ ''?all&rnd'' @ ToString (CSRandomUInt e 1000000000 2000000000))"

definition choose_json :: "env \<Rightarrow> Request \<Rightarrow> GenericKarl \<Rightarrow> (exn + string) \<times> GenericKarl" where
  "choose_json e r k =
     (if has (query r) ''confirm'' \<and> has (query r) ''port'' then
        (case HTTP_GET e (callback_url e r) of
           None \<Rightarrow> Inl NetworkException
         | Some b \<Rightarrow> Inr b,
         k\<lparr>trace := trace k @ [OutboundGET (callback_url e r)]\<rparr>)
      else (Inr (request_body r), k))"

definition consistent :: "env \<Rightarrow> (string \<times> string) list \<Rightarrow> ClaireStatus \<Rightarrow> bool" where
  "consistent e qs body =
     ((\<not> has qs ''codename'' \<or> codename body = qs_get qs ''codename'') \<and>
      (\<not> has qs ''port'' \<or> local_port body = FromString_uint16 e (qs_get qs ''port'')))"

definition Serve_POST :: "env \<Rightarrow> Request \<Rightarrow> GenericKarl \<Rightarrow> Response \<times> GenericKarl" where
  "Serve_POST e r k =
     (case choose_json e r k of
        (Inl ex, k0) \<Rightarrow> (catch ex, k0)
      | (Inr json, k0) \<Rightarrow>
          (case ParseJSON_ClaireStatus e json of
             None \<Rightarrow> (catch TypeSystemParseJSONException, k0)
           | Some body \<Rightarrow>
               if consistent e (query r) body then
                 (case run_steps (ingest_steps e (remote_ip r) json body) k0 of
                    (Some ex, k') \<Rightarrow> (catch ex, k')
                  | (None, k') \<Rightarrow> (\<lparr>code = 200, content = Text (''OK'' @ [CHR 0x0A])\<rparr>, k'))
               else
                 (\<lparr>code = 400, content = Text (''Inconsistent URL/body parameters.'' @ [CHR 0x0A])\<rparr>,
                  k0)))"

section \<open>GET /snapshot/<codename>\<close>

text \<open>The scan of the whole log that \<^verbatim>\<open>ServeSnapshot\<close> runs when the cached index is zero:
  every entry of the codename overwrites \<^verbatim>\<open>index\<close> with its own index plus one.\<close>

definition scan_log :: "string \<Rightarrow> stream_entry list \<Rightarrow> nat \<Rightarrow> nat" where
  "scan_log c es index0 =
     fold (\<lambda>e i. if codename (keepalive (entry e)) = c then index (idx_ts e) + 1 else i) es index0"

text \<open>The handler is registered for exactly one path argument
  (\<^verbatim>\<open>URLPathArgs::CountMask::One\<close>), so it takes the codename; \<open>nobuild\<close> is
  \<^verbatim>\<open>r.url.query.has("nobuild")\<close>. Reading \<^verbatim>\<open>latest_keepalive_index_plus_one_[codename]\<close>
  creates the entry with value zero when it is missing. The result is \<open>None\<close> where the
  code dereferences \<^verbatim>\<open>begin()\<close> of an empty range.\<close>

definition ServeSnapshot ::
  "env \<Rightarrow> string \<Rightarrow> bool \<Rightarrow> GenericKarl \<Rightarrow> Response option \<times> GenericKarl" where
  "ServeSnapshot e c nobuild k =
     (let index_placeholder = (case latest_keepalive_index_plus_one k c of Some v \<Rightarrow> v | None \<Rightarrow> 0);
          index1 = (if index_placeholder = 0
                    then scan_log c (Iterate 0 (keepalives_stream k)) index_placeholder
                    else index_placeholder);
          k1 = k\<lparr>latest_keepalive_index_plus_one :=
                    (latest_keepalive_index_plus_one k)
                      (c \<mapsto> (if index_placeholder = 0 \<and> index1 \<noteq> 0
                              then max index_placeholder index1 else index_placeholder))\<rparr>
      in if index1 \<noteq> 0 then
           (case Iterate (index1 - 1) (keepalives_stream k) of
              [] \<Rightarrow> (None, k1)
            | ent # _ \<Rightarrow>
                (Some \<lparr>code = 200,
                       content = SnapshotOfKeepalive (us (idx_ts ent) - Now e)
                          (if \<not> nobuild then keepalive (entry ent)
                           else (keepalive (entry ent))\<lparr>build := None\<rparr>)\<rparr>, k1))
         else
           (Some \<lparr>code = 404,
                  content = Error (''No keepalives from '' @ [CHR 0x27] @ c @ [CHR 0x27] @
                                   '' have been received.'')\<rparr>, k1))"

section \<open>GET /: the status page\<close>

datatype state_variant_t =
    current_service_state_up microseconds string microseconds string
  | current_service_state_down microseconds string microseconds string

record ProtoReport =
  currently :: state_variant_t
  pr_dependencies :: "ClaireServiceKey list"
  pr_runtime :: "runtime_status_variant_t option"

text \<open>What \<^verbatim>\<open>BuildStatusAndRespondWithIt\<close> has computed when it opens its read-only
  transaction: the window and the containers filled by the loop over the stream. The
  join against the store and the rendering that follow are not modelled.\<close>

record status_page =
  sp_now :: microseconds
  sp_from :: microseconds
  sp_to :: microseconds
  codenames_to_resolve :: "string set"
  report_for_codename :: "string \<rightharpoonup> ProtoReport"
  codenames_per_service :: "string \<Rightarrow> string set"
  service_key_into_codename :: "ClaireServiceKey \<rightharpoonup> string"

text \<open>The two ends of the window. The products \<^verbatim>\<open>FromString<double>(...) * 1e6 * 60\<close> (and
  \<^verbatim>\<open>* 60\<close>, \<^verbatim>\<open>* 24\<close> for hours and days) are taken as exact products of real numbers: the
  code rounds each product to a \<^verbatim>\<open>double\<close>, which changes nothing where the products are
  whole numbers below \<open>2^53\<close>, as for a whole number of minutes, hours or days.\<close>

definition window_from :: "env \<Rightarrow> (string \<times> string) list \<Rightarrow> microseconds" where
  "window_from e qs =
     (if has qs ''from'' then sint (FromString_microseconds e (qs_get qs ''from''))
      else if has qs ''m'' then
        wrap64 (Now e - static_cast_int64 (FromString_double e (qs_get qs ''m'') * 1000000 * 60))
      else if has qs ''h'' then
        wrap64 (Now e -
          static_cast_int64 (FromString_double e (qs_get qs ''h'') * 1000000 * 60 * 60))
      else if has qs ''d'' then
        wrap64 (Now e -
          static_cast_int64 (FromString_double e (qs_get qs ''d'') * 1000000 * 60 * 60 * 24))
      else wrap64 (Now e - static_cast_int64 (1000000 * 60 * 5)))"

definition window_to :: "env \<Rightarrow> (string \<times> string) list \<Rightarrow> microseconds \<Rightarrow> microseconds" where
  "window_to e qs from =
     (if has qs ''to'' then sint (FromString_microseconds e (qs_get qs ''to''))
      else if has qs ''interval_us'' then
        wrap64 (from + sint (FromString_microseconds e (qs_get qs ''interval_us'')))
      else Now e)"

definition report_of :: "env \<Rightarrow> microseconds \<Rightarrow> stream_entry \<Rightarrow> ProtoReport" where
  "report_of e timeout ent =
     (let ka = keepalive (entry ent);
          last_keepalive =
            TimeIntervalAsHumanReadableString e (Now e - us (idx_ts ent)) @ '' ago''
      in \<lparr>currently =
             (if (Now e - us (idx_ts ent)) < timeout then
                current_service_state_up (start_time_epoch_microseconds ka) last_keepalive
                  (us (idx_ts ent))
                  (TimeIntervalAsHumanReadableString e
                     (uptime_epoch_microseconds ka + (Now e - us (idx_ts ent))))
              else
                current_service_state_down (start_time_epoch_microseconds ka) last_keepalive
                  (us (idx_ts ent)) (uptime ka)),
           pr_dependencies = dependencies ka,
           pr_runtime = runtime ka\<rparr>)"

text \<open>The loop over the stream: \<open>contribute\<close> is what the body of the loop does with an
  entry that passes the test of the window, \<open>status_step\<close> is one turn of the loop.\<close>

definition contribute ::
  "env \<Rightarrow> microseconds \<Rightarrow> stream_entry \<Rightarrow> status_page \<Rightarrow> status_page" where
  "contribute e timeout ent acc =
     (let ka = keepalive (entry ent) in
      acc\<lparr>codenames_to_resolve := insert (codename ka) (codenames_to_resolve acc),
          service_key_into_codename :=
            (service_key_into_codename acc)(location (entry ent) \<mapsto> codename ka),
          codenames_per_service :=
            (codenames_per_service acc)
              (service ka := insert (codename ka) (codenames_per_service acc (service ka))),
          report_for_codename :=
            (report_for_codename acc)(codename ka \<mapsto> report_of e timeout ent)\<rparr>)"

definition status_step ::
  "env \<Rightarrow> microseconds \<Rightarrow> stream_entry \<Rightarrow> status_page \<Rightarrow> status_page" where
  "status_step e timeout ent acc =
     (if us (idx_ts ent) \<ge> sp_from acc \<and> us (idx_ts ent) < sp_to acc
      then contribute e timeout ent acc
      else acc)"

definition BuildStatusAndRespondWithIt :: "env \<Rightarrow> Request \<Rightarrow> GenericKarl \<Rightarrow> status_page" where
  "BuildStatusAndRespondWithIt e r k =
     (let from = window_from e (query r);
          to = window_to e (query r) from
      in fold (status_step e (service_timeout_interval k)) (Iterate 0 (keepalives_stream k))
           \<lparr>sp_now = Now e, sp_from = from, sp_to = to,
            codenames_to_resolve = {}, report_for_codename = Map.empty,
            codenames_per_service = (\<lambda>_. {}), service_key_into_codename = Map.empty\<rparr>)"

section \<open>The handler of the base URL, and the destructor\<close>

datatype reply = Reply Response | StatusPage status_page

definition Serve :: "env \<Rightarrow> Request \<Rightarrow> GenericKarl \<Rightarrow> reply \<times> GenericKarl" where
  "Serve e r k =
     (if http_method r \<noteq> ''GET'' \<and> http_method r \<noteq> ''POST'' \<and> http_method r \<noteq> ''DELETE'' then
        (Reply \<lparr>code = 405, content = Text (DefaultMethodNotAllowedMessage e)\<rparr>, k)
      else if http_method r = ''DELETE'' then
        (case Serve_DELETE r k of (resp, k') \<Rightarrow> (Reply resp, k'))
      else if http_method r = ''POST'' then
        (case Serve_POST e r k of (resp, k') \<Rightarrow> (Reply resp, k'))
      else (StatusPage (BuildStatusAndRespondWithIt e r k), k))"

text \<open>The body of the constructor, on the stream and the store that the two files hold,
  with \<open>t\<close> the reading of the clock: Karl records its launch in the store and fills the
  reconciler's cache with the codenames that the store has as \<open>Active\<close>. The cache of
  indexes starts empty.\<close>

definition GenericKarl_constructor ::
  "microseconds \<Rightarrow> microseconds \<Rightarrow> stream_t \<Rightarrow> ServiceStorage \<Rightarrow> GenericKarl" where
  "GenericKarl_constructor t timeout stream_file storage_file =
     \<lparr>destructing = False,
      services_keepalive_time_cache =
        fold (\<lambda>claire cache.
                if registered_state claire = Active then AList.update (ci_codename claire) t cache
                else cache)
          (claires storage_file) [],
      latest_keepalive_index_plus_one = Map.empty,
      service_timeout_interval = timeout,
      keepalives_stream = stream_file,
      storage =
        karl_Add
          (KarlInfo_default
             \<lparr>persisted_keepalives_info :=
                (if persistence stream_file \<noteq> []
                 then Some (idx_ts (last (persistence stream_file))) else None)\<rparr>)
          storage_file,
      state_update_thread_joinable = True,
      trace = [Committed]\<rparr>"

text \<open>\<^verbatim>\<open>~GenericKarl\<close>, statement by statement.\<close>

definition destructor :: "GenericKarl \<Rightarrow> GenericKarl" where
  "destructor k =
     (let k1 = k\<lparr>destructing := True, trace := trace k @ [SetDestructing]\<rparr>;
          k2 = ReadWriteTransaction (karl_Add (KarlInfo_default\<lparr>up := False\<rparr>)) k1
      in if state_update_thread_joinable k2 then
           (let k3 = notify_one k2
            in k3\<lparr>state_update_thread_joinable := False, trace := trace k3 @ [Join]\<rparr>)
         else k2)"

section \<open>Auxiliary notions for the statements\<close>

text \<open>The row that the reconciler stores for a timed-out codename: the row on file, or a
  skeletal row carrying the codename, with the state set to \<open>DisconnectedByTimeout\<close>.\<close>

definition timeouted_row :: "ServiceStorage \<Rightarrow> string \<Rightarrow> ClaireInfo" where
  "timeouted_row flds c =
     (case claires_get flds c of Some cur \<Rightarrow> cur | None \<Rightarrow> ClaireInfo_default\<lparr>ci_codename := c\<rparr>)
       \<lparr>registered_state := DisconnectedByTimeout\<rparr>"

subsection \<open>Concrete inputs\<close>

text \<open>A Karl that has just been constructed on empty files, with the default timeout of
  45 seconds; a keepalive body; surroundings whose clock reads \<open>t\<close>, whose parser knows the
  three documents \<open>svcA\<close>, \<open>svcA later\<close> and \<open>svcB\<close>, whose HTTP client reaches one host,
  which answers with the document \<open>svcB\<close>, and whose random device reads 5234567890, so that
  \<open>CSRandomUInt\<close> draws 1234567890 from \<open>[1e9, 2e9)\<close>; and a request from the peer
  \<open>10.0.0.1\<close>.\<close>

definition karl0 :: GenericKarl where
  "karl0 =
     \<lparr>destructing = False, services_keepalive_time_cache = [],
      latest_keepalive_index_plus_one = Map.empty, service_timeout_interval = 45000000,
      keepalives_stream = \<lparr>persistence = [], publisher = True, first_index = 0\<rparr>,
      storage = \<lparr>claires = [], builds = [], servers = [], karl = [KarlInfo_default]\<rparr>,
      state_update_thread_joinable = True, trace = []\<rparr>"

definition status_svc :: "string \<Rightarrow> microseconds \<Rightarrow> ClaireStatus" where
  "status_svc c t =
     \<lparr>codename = c, service = ''S'', local_port = 7000, dependencies = [], build = None,
      start_time_epoch_microseconds = 0, uptime_epoch_microseconds = t, uptime = ''some time'',
      last_successful_ping_epoch_microseconds = None, now = t\<rparr>"

definition env_at :: "microseconds \<Rightarrow> env" where
  "env_at t =
     \<lparr>Now = t, Publish_Now = t + 1,
      HTTP_GET = (\<lambda>url. if take 21 url = ''http://10.0.0.1:7000/'' then Some ''svcB'' else None),
      ParseJSON_ClaireStatus =
        (\<lambda>json. if json = ''svcA'' then Some (status_svc ''svcA'' 100)
                else if json = ''svcA later'' then Some (status_svc ''svcA'' 200)
                else if json = ''svcB'' then Some (status_svc ''svcB'' 100)
                else None),
      ParseJSON_claire_status_t = (\<lambda>json. None),
      random_device = 5234567890,
      FromString_uint16 = (\<lambda>s. if s = ''7000'' then 7000 else 0),
      FromString_microseconds = (\<lambda>s. if s = ''100'' then 100 else 0),
      FromString_double = (\<lambda>s. if s = ''5'' then 5 else if s = ''1.5'' then 3 / 2 else 0),
      TimeIntervalAsHumanReadableString = (\<lambda>d. ''some time''),
      kUpdateServerInfoThresholdByTimeSkewDifference = 50000,
      DefaultMethodNotAllowedMessage = ''Method not allowed''\<rparr>"

definition request :: "string \<Rightarrow> (string \<times> string) list \<Rightarrow> string \<Rightarrow> Request" where
  "request m qs b =
     \<lparr>http_method = m, remote_ip = ''10.0.0.1'', query = qs, url_path_args = [],
      request_body = b\<rparr>"

text \<open>A fresh Karl whose persister gives its first entry the index \<open>b\<close>; this Karl after
  one keepalive of \<open>svcA\<close> at time 100; after a second keepalive of \<open>svcA\<close> at time 200; and
  after a keepalive of \<open>svcB\<close> at time 200 instead. \<open>restarted k\<close> is a Karl constructed at
  time 250 on the files that \<open>k\<close> leaves behind.\<close>

definition karl_fresh :: "nat \<Rightarrow> GenericKarl" where
  "karl_fresh b = karl0\<lparr>keepalives_stream := \<lparr>persistence = [], publisher = True, first_index = b\<rparr>\<rparr>"

definition karl_after_one :: "nat \<Rightarrow> GenericKarl" where
  "karl_after_one b = snd (Serve (env_at 100) (request ''POST'' [] ''svcA'') (karl_fresh b))"

definition karl_after_two :: "nat \<Rightarrow> GenericKarl" where
  "karl_after_two b =
     snd (Serve (env_at 200) (request ''POST'' [] ''svcA later'') (karl_after_one b))"

definition karl_after_other :: "nat \<Rightarrow> GenericKarl" where
  "karl_after_other b =
     snd (Serve (env_at 200) (request ''POST'' [] ''svcB'') (karl_after_one b))"

definition restarted :: "GenericKarl \<Rightarrow> GenericKarl" where
  "restarted k =
     GenericKarl_constructor 250 (service_timeout_interval k) (keepalives_stream k) (storage k)"

text \<open>\<open>occurs_before a b tr\<close>: some occurrence of \<open>a\<close> in the trace has a \<open>b\<close> after it.\<close>

fun occurs_before :: "'a \<Rightarrow> 'a \<Rightarrow> 'a list \<Rightarrow> bool" where
  "occurs_before a b [] = False"
| "occurs_before a b (x # xs) = ((x = a \<and> b \<in> set xs) \<or> occurs_before a b xs)"


text \<open>The test of the loop of the status page: the timestamp of the entry is at or after
  \<open>from\<close> and before \<open>to\<close>.\<close>

definition in_window :: "status_page \<Rightarrow> stream_entry \<Rightarrow> bool" where
  "in_window acc ent = (sp_from acc \<le> us (idx_ts ent) \<and> us (idx_ts ent) < sp_to acc)"

section \<open>Properties of the tables\<close>

lemma find_filter_neq:
  "c \<noteq> d \<Longrightarrow>
     find (\<lambda>row. key row = c) (filter (\<lambda>row. key row \<noteq> d) rows) = find (\<lambda>row. key row = c) rows"
  by (induction rows) auto

lemma claires_get_Add:
  "claires_get (claires_Add claire flds) c =
     (if c = ci_codename claire then Some claire else claires_get flds c)"
  by (simp add: claires_get_def claires_Add_def find_filter_neq)

lemma claires_get_key: "claires_get flds c = Some row \<Longrightarrow> ci_codename row = c"
  by (auto simp: claires_get_def find_Some_iff)

section \<open>The reconciler\<close>

lemma scan_cache_eq:
  "scan_cache t timeout cache acc mr =
     (filter (\<lambda>it. \<not> (t - snd it) > timeout) cache,
      fold (\<lambda>it a. List.insert (fst it) a) (filter (\<lambda>it. (t - snd it) > timeout) cache) acc,
      fold (\<lambda>it m. max (snd it) m) (filter (\<lambda>it. \<not> (t - snd it) > timeout) cache) mr)"
  by (induction cache arbitrary: acc mr) simp_all

lemma set_fold_insert:
  "set (fold (\<lambda>it a. List.insert (fst it) a) xs acc) = set acc \<union> fst ` set xs"
  by (induction xs arbitrary: acc) auto

lemma claires_get_mark_timeouted:
  "claires_get (mark_timeouted d flds) c =
     (if c = d then Some (timeouted_row flds c) else claires_get flds c)"
  by (auto simp: mark_timeouted_def claires_get_Add timeouted_row_def Let_def
      split: option.splits dest: claires_get_key)

lemma timeouted_row_mark [simp]:
  "timeouted_row (mark_timeouted d flds) c = timeouted_row flds c"
proof (cases "c = d")
  case True
  have "timeouted_row (mark_timeouted d flds) d =
          (timeouted_row flds d)\<lparr>registered_state := DisconnectedByTimeout\<rparr>"
    unfolding timeouted_row_def[of "mark_timeouted d flds"]
    by (simp add: claires_get_mark_timeouted)
  also have "\<dots> = timeouted_row flds d"
    by (simp add: timeouted_row_def)
  finally show ?thesis using True by simp
next
  case False
  then show ?thesis by (simp add: timeouted_row_def claires_get_mark_timeouted)
qed

lemma claires_get_fold_mark:
  "claires_get (fold mark_timeouted cs flds) c =
     (if c \<in> set cs then Some (timeouted_row flds c) else claires_get flds c)"
  by (induction cs arbitrary: flds) (auto simp: claires_get_mark_timeouted)

text \<open>
  C7. One iteration of the reconciler at snapshot time \<open>t\<close> leaves in
  \<open>services_keepalive_time_cache\<close> exactly the entries, unchanged and in their order, for
  which \<open>t - last > service_timeout_interval\<close> does not hold; and the row that the store
  holds for a codename \<open>c\<close> afterwards is, when \<open>c\<close> was cached with such a timed-out
  entry, the former row with \<open>registered_state = DisconnectedByTimeout\<close> (a skeletal row
  carrying the codename when there was none), and the former row otherwise.
\<close>

theorem reconciler_iteration:
  "services_keepalive_time_cache (StateUpdateThread_iteration t k) =
     filter (\<lambda>it. \<not> (t - snd it) > service_timeout_interval k) (services_keepalive_time_cache k)
   \<and> claires_get (storage (StateUpdateThread_iteration t k)) c =
     (if c \<in> fst ` set (filter (\<lambda>it. (t - snd it) > service_timeout_interval k)
                             (services_keepalive_time_cache k))
      then Some ((case claires_get (storage k) c of
                    Some cur \<Rightarrow> cur
                  | None \<Rightarrow> ClaireInfo_default\<lparr>ci_codename := c\<rparr>)
                 \<lparr>registered_state := DisconnectedByTimeout\<rparr>)
      else claires_get (storage k) c)"
  by (simp add: StateUpdateThread_iteration_def scan_cache_eq ReadWriteTransaction_def Let_def
        claires_get_fold_mark set_fold_insert timeouted_row_def)
     (auto simp: set_fold_insert dest: arg_cong[where f=set])

section \<open>Deregistration\<close>

text \<open>
  C10. A DELETE request whose query carries a codename for which the store has no
  \<open>ClaireInfo\<close> row is answered \<open>200 "OK\n"\<close>; afterwards the store holds for that codename
  a new row that carries the codename and \<open>registered_state = Deregistered\<close>, and the
  keepalive cache has no entry for the codename.
\<close>

theorem delete_unknown_codename:
  assumes "http_method r = ''DELETE''"
    and "has (query r) ''codename''"
    and "claires_get (storage k) (qs_get (query r) ''codename'') = None"
  shows "fst (Serve e r k) = Reply \<lparr>code = 200, content = Text (''OK'' @ [CHR 0x0A])\<rparr>
     \<and> claires_get (storage (snd (Serve e r k))) (qs_get (query r) ''codename'') =
         Some (ClaireInfo_default\<lparr>ci_codename := qs_get (query r) ''codename'',
                                  registered_state := Deregistered\<rparr>)
     \<and> map_of (services_keepalive_time_cache (snd (Serve e r k)))
           (qs_get (query r) ''codename'') = None"
  using assms
  by (simp add: Serve_def Serve_DELETE_def Let_def ReadWriteTransaction_def notify_one_def
      deregister_def claires_get_Add AList.delete_conv')

theorem delete_unknown_codename_witness:
  "fst (Serve (env_at 100) (request ''DELETE'' [(''codename'', ''svcA'')] []) karl0) =
     Reply \<lparr>code = 200, content = Text (''OK'' @ [CHR 0x0A])\<rparr>
   \<and> claires_get
       (storage (snd (Serve (env_at 100) (request ''DELETE'' [(''codename'', ''svcA'')] []) karl0)))
       ''svcA'' =
       Some (ClaireInfo_default\<lparr>ci_codename := ''svcA'', registered_state := Deregistered\<rparr>)
   \<and> map_of
       (services_keepalive_time_cache
          (snd (Serve (env_at 100) (request ''DELETE'' [(''codename'', ''svcA'')] []) karl0)))
       ''svcA'' = None"
  using delete_unknown_codename
          [of "request ''DELETE'' [(''codename'', ''svcA'')] []" karl0 "env_at 100"]
  by (simp add: request_def karl0_def has_def qs_get_def claires_get_def)

section \<open>Keepalive ingest\<close>

lemmas ingest_defs = Serve_def Serve_POST_def choose_json_def callback_url_def CSRandomUInt_def
  consistent_def
  run_steps.simps ingest_steps_def publish_step_def commit_step_def cache_step_def Publish_def
  status_of_def update_server_def update_build_def update_claire_def ReadWriteTransaction_def
  notify_one_def claires_get_def claires_Add_def builds_get_def has_def qs_get_def Let_def
  env_at_def request_def karl0_def karl_fresh_def status_svc_def StatusPageURL_def catch_def
  ToString.simps ClaireStatus.defs claire_status_t.defs

text \<open>The two writers of the cache of indexes: the ingest path stores the index of the
  entry it has just published, the scan of \<open>ServeSnapshot\<close> stores the index of the last
  entry of the codename plus one.\<close>

lemma publish_step_caches_index:
  assumes "publish_step e c loc status k = Inr k'"
  shows "latest_keepalive_index_plus_one k' c =
           Some (index (idx_ts (last (persistence (keepalives_stream k')))))"
  using assms
  by (auto simp: publish_step_def Publish_def Let_def split: if_splits)

lemma scan_log_last:
  "scan_log c es i =
     (let fs = filter (\<lambda>e. codename (keepalive (entry e)) = c) es
      in if fs = [] then i else index (idx_ts (last fs)) + 1)"
  unfolding scan_log_def Let_def
  by (induction es rule: rev_induct) (simp_all del: One_nat_def)

text \<open>A codename without an entry in the stream, and without a non-zero cache entry, has no
  snapshot: the response is 404.\<close>

lemma snapshot_unknown_codename:
  assumes "latest_keepalive_index_plus_one k c = None \<or> latest_keepalive_index_plus_one k c = Some 0"
    and "filter (\<lambda>e. codename (keepalive (entry e)) = c) (persistence (keepalives_stream k)) = []"
  shows "fst (ServeSnapshot e c nobuild k) =
           Some \<lparr>code = 404,
                 content = Error (''No keepalives from '' @ [CHR 0x27] @ c @ [CHR 0x27] @
                                  '' have been received.'')\<rparr>"
  using assms
  by (auto simp: ServeSnapshot_def Let_def scan_log_last Iterate_def)

lemma ServeSnapshot_cache:
  "latest_keepalive_index_plus_one (snd (ServeSnapshot e c nobuild k)) c =
     Some (case latest_keepalive_index_plus_one k c of
             Some (Suc v) \<Rightarrow> Suc v
           | _ \<Rightarrow> scan_log c (Iterate 0 (keepalives_stream k)) 0)"
  by (simp add: ServeSnapshot_def Let_def split: list.splits option.splits nat.splits)

text \<open>
  C1. The cache \<open>latest_keepalive_index_plus_one\<close> is meant to hold, for a codename, one
  plus the index of its latest stream entry, zero standing for "no keepalive". The ingest
  path stores the index that \<open>Publish\<close> returns as it is: after the first keepalive of
  \<open>svcA\<close> on a fresh Karl, whatever index \<open>b\<close> the persister gives its first entry, the
  stream holds the entry of \<open>svcA\<close> with index \<open>b\<close> and the cache holds \<open>b\<close> for \<open>svcA\<close>, not
  \<open>b + 1\<close>. The scan of \<open>ServeSnapshot\<close>, run on the same stream by a restarted Karl, caches
  \<open>b + 1\<close> for the same entry.
\<close>

theorem ingest_caches_bare_index:
  "latest_keepalive_index_plus_one (karl_after_one b) ''svcA'' = Some b
   \<and> map (\<lambda>e. (codename (keepalive (entry e)), index (idx_ts e)))
        (persistence (keepalives_stream (karl_after_one b))) = [(''svcA'', b)]
   \<and> latest_keepalive_index_plus_one
        (snd (ServeSnapshot (env_at 300) ''svcA'' False (restarted (karl_after_one b)))) ''svcA'' =
      Some (b + 1)"
  by (simp add: ServeSnapshot_cache)
     (simp add: karl_after_one_def restarted_def GenericKarl_constructor_def Iterate_def
        scan_log_def ingest_defs)

text \<open>
  C2. The snapshot of a codename is meant to be its most recent keepalive. With a
  persister that counts from zero: after two keepalives of \<open>svcA\<close>, published at 101 and
  201 with the reported times 100 and 200, \<open>ServeSnapshot\<close> answers 200 with the first of
  the two. With a persister that counts from one: after a keepalive of \<open>svcA\<close> and then one
  of \<open>svcB\<close>, a restarted Karl answers the snapshot of \<open>svcA\<close> with the keepalive of \<open>svcB\<close>.
\<close>

theorem snapshot_after_two_ingests:
  "map (\<lambda>e. (codename (keepalive (entry e)), index (idx_ts e), us (idx_ts e),
              now (keepalive (entry e))))
     (persistence (keepalives_stream (karl_after_two 0))) =
     [(''svcA'', 0, 101, 100), (''svcA'', 1, 201, 200)]
   \<and> latest_keepalive_index_plus_one (karl_after_two 0) ''svcA'' = Some 1
   \<and> fst (ServeSnapshot (env_at 300) ''svcA'' False (karl_after_two 0)) =
     Some \<lparr>code = 200,
           content = SnapshotOfKeepalive (101 - 300)
             (ClaireStatus.extend (status_svc ''svcA'' 100) (claire_status_t.fields None))\<rparr>
   \<and> map (\<lambda>e. (codename (keepalive (entry e)), index (idx_ts e), us (idx_ts e)))
     (persistence (keepalives_stream (restarted (karl_after_other 1)))) =
     [(''svcA'', 1, 101), (''svcB'', 2, 201)]
   \<and> fst (ServeSnapshot (env_at 300) ''svcA'' False (restarted (karl_after_other 1))) =
     Some \<lparr>code = 200,
           content = SnapshotOfKeepalive (201 - 300)
             (ClaireStatus.extend (status_svc ''svcB'' 100) (claire_status_t.fields None))\<rparr>"
  by (simp add: ServeSnapshot_def Iterate_def scan_log_def karl_after_two_def karl_after_other_def
      karl_after_one_def restarted_def GenericKarl_constructor_def ingest_defs)

section \<open>The reverse callback\<close>

lemma has_delete_same: "\<not> has (AList.delete d qs) d"
  by (simp add: has_def AList.delete_conv')

lemma has_delete: "key \<noteq> d \<Longrightarrow> has (AList.delete d qs) key = has qs key"
  by (simp add: has_def AList.delete_conv')

lemma qs_get_delete: "key \<noteq> d \<Longrightarrow> qs_get (AList.delete d qs) key = qs_get qs key"
  by (simp add: qs_get_def AList.delete_conv')

lemma consistent_delete_confirm:
  "consistent e (AList.delete ''confirm'' qs) body = consistent e qs body"
  by (simp add: consistent_def has_delete qs_get_delete)

lemma CSRandomUInt_range:
  "a < b \<Longrightarrow> a \<le> CSRandomUInt e a b \<and> CSRandomUInt e a b < b"
proof -
  assume "a < b"
  then have "random_device e mod (b - a) < b - a" by simp
  then show ?thesis unfolding CSRandomUInt_def by linarith
qed

text \<open>
  C3, as amended. For a POST keepalive whose query has both \<open>confirm\<close> and \<open>port\<close>, the
  handler issues an outbound GET to the URL
  \<open>http://<peer-ip>:<port>/.current?all&rnd<n>\<close>, the decimal number \<open>n\<close> following \<open>rnd\<close>
  with no \<open>=\<close> in between, for an integer \<open>n\<close> in \<open>[1e9, 2e9)\<close>. When the GET fails with a
  network error the response is \<open>400 "Callback error.\n"\<close> and nothing else happens. When
  it returns a body, the handler goes on exactly as it does for the same request without
  \<open>confirm\<close> whose body is the body of the callback's response: the body of the request
  itself plays no part.
\<close>

theorem callback_confirm:
  assumes "http_method r = ''POST''"
    and "has (query r) ''confirm''"
    and "has (query r) ''port''"
  shows "\<exists>n. 1000000000 \<le> n \<and> n < 2000000000 \<and>
           (let u = ''http://'' @ remote_ip r @ '':'' @ qs_get (query r) ''port'' @
                    ''/.current?all&rnd'' @ ToString n;
                k1 = k\<lparr>trace := trace k @ [OutboundGET u]\<rparr>
            in case HTTP_GET e u of
                 None \<Rightarrow>
                   Serve e r k =
                     (Reply \<lparr>code = 400, content = Text (''Callback error.'' @ [CHR 0x0A])\<rparr>, k1)
               | Some b \<Rightarrow>
                   Serve e r k =
                     Serve e (r\<lparr>query := AList.delete ''confirm'' (query r), request_body := b\<rparr>)
                       k1)"
proof -
  define n where "n = CSRandomUInt e 1000000000 2000000000"
  define u where "u = callback_url e r"
  define k1 where "k1 = k\<lparr>trace := trace k @ [OutboundGET u]\<rparr>"
  define r' where
    "r' = (\<lambda>b. r\<lparr>query := AList.delete ''confirm'' (query r), request_body := b\<rparr>)"
  have range: "1000000000 \<le> n \<and> n < 2000000000"
    unfolding n_def by (rule CSRandomUInt_range) simp
  have cj: "choose_json e r k =
      (case HTTP_GET e u of None \<Rightarrow> Inl NetworkException | Some b \<Rightarrow> Inr b, k1)"
    using assms by (simp add: choose_json_def u_def k1_def)
  have cj': "choose_json e (r' b) k1 = (Inr b, k1)" for b
    by (simp add: choose_json_def r'_def has_delete_same)
  have S: "Serve e r k = (case Serve_POST e r k of (resp, k') \<Rightarrow> (Reply resp, k'))"
    using assms by (simp add: Serve_def)
  have S': "Serve e (r' b) k1 =
      (case Serve_POST e (r' b) k1 of (resp, k') \<Rightarrow> (Reply resp, k'))" for b
    using assms by (simp add: Serve_def r'_def)
  have none: "HTTP_GET e u = None \<Longrightarrow>
      Serve e r k = (Reply \<lparr>code = 400, content = Text (''Callback error.'' @ [CHR 0x0A])\<rparr>, k1)"
    unfolding S Serve_POST_def cj by (simp add: catch_def)
  have some: "HTTP_GET e u = Some b \<Longrightarrow> Serve e r k = Serve e (r' b) k1" for b
  proof -
    have q: "consistent e (query (r' b)) body = consistent e (query r) body" for body
      by (simp add: r'_def consistent_delete_confirm)
    have i: "remote_ip (r' b) = remote_ip r"
      by (simp add: r'_def)
    assume "HTTP_GET e u = Some b"
    then show ?thesis
      unfolding S S' Serve_POST_def cj cj' q i by simp
  qed
  have u: "u = ''http://'' @ remote_ip r @ '':'' @ qs_get (query r) ''port'' @
                  ''/.current?all&rnd'' @ ToString n"
    by (simp add: u_def n_def callback_url_def)
  have "(let u = ''http://'' @ remote_ip r @ '':'' @ qs_get (query r) ''port'' @
                    ''/.current?all&rnd'' @ ToString n;
                k1 = k\<lparr>trace := trace k @ [OutboundGET u]\<rparr>
            in case HTTP_GET e u of
                 None \<Rightarrow>
                   Serve e r k =
                     (Reply \<lparr>code = 400, content = Text (''Callback error.'' @ [CHR 0x0A])\<rparr>, k1)
               | Some b \<Rightarrow>
                   Serve e r k =
                     Serve e (r\<lparr>query := AList.delete ''confirm'' (query r), request_body := b\<rparr>)
                       k1)"
    unfolding Let_def u[symmetric] k1_def[symmetric]
    using none some by (auto simp: r'_def split: option.splits)
  with range show ?thesis by blast
qed

theorem callback_confirm_witness:
  "(\<exists>n. 1000000000 \<le> n \<and> n < 2000000000 \<and>
      Serve (env_at 100)
        (request ''POST'' [(''codename'', ''svcB''), (''port'', ''7000''), (''confirm'', ''1'')]
           ''svcA'')
        karl0 =
      Serve (env_at 100)
        (request ''POST'' [(''codename'', ''svcB''), (''port'', ''7000'')] ''svcB'')
        (karl0\<lparr>trace := [OutboundGET (''http://10.0.0.1:7000/.current?all&rnd'' @ ToString n)]\<rparr>))
   \<and> (\<exists>n. 1000000000 \<le> n \<and> n < 2000000000 \<and>
      Serve (env_at 100) (request ''POST'' [(''port'', ''7001''), (''confirm'', ''1'')] ''svcA'')
        karl0 =
      (Reply \<lparr>code = 400, content = Text (''Callback error.'' @ [CHR 0x0A])\<rparr>,
       karl0\<lparr>trace := [OutboundGET (''http://10.0.0.1:7001/.current?all&rnd'' @ ToString n)]\<rparr>))"
  using callback_confirm
          [of "request ''POST'' [(''codename'', ''svcB''), (''port'', ''7000''), (''confirm'', ''1'')] ''svcA''"
              karl0 "env_at 100"]
        callback_confirm
          [of "request ''POST'' [(''port'', ''7001''), (''confirm'', ''1'')] ''svcA''"
              karl0 "env_at 100"]
  by (simp add: request_def has_def qs_get_def env_at_def karl0_def)

text \<open>The claim as stated, with \<open>rnd=<n>\<close> in the URL, fails: the only outbound GET of
  this request goes to a URL that has the digits right after \<open>rnd\<close>.\<close>

theorem callback_url_counterexample:
  "trace (snd (Serve (env_at 100)
      (request ''POST'' [(''codename'', ''svcB''), (''port'', ''7000''), (''confirm'', ''1'')] ''svcA'')
      karl0)) =
     [OutboundGET ''http://10.0.0.1:7000/.current?all&rnd1234567890'', Published 0, Committed,
      NotifyOne]
   \<and> \<not> (\<exists>n. OutboundGET (''http://10.0.0.1:7000/.current?all&rnd='' @ ToString n) \<in>
          set (trace (snd (Serve (env_at 100)
      (request ''POST'' [(''codename'', ''svcB''), (''port'', ''7000''), (''confirm'', ''1'')] ''svcA'')
      karl0))))"
  by (simp add: ingest_defs)

section \<open>Shutdown\<close>

text \<open>
  C4, as amended. The destructor sets the shutdown flag, then writes the final \<open>KarlInfo\<close>
  record with \<open>up = false\<close> to the store, and only after that commit, when the worker
  thread is joinable, signals the reconciler's condition variable and joins the thread.
\<close>

theorem destructor_order:
  "trace (destructor k) =
     trace k @ (if state_update_thread_joinable k
                then [SetDestructing, Committed, NotifyOne, Join]
                else [SetDestructing, Committed])
   \<and> destructing (destructor k)
   \<and> karl (storage (destructor k)) = karl (storage k) @ [\<lparr>up = False, persisted_keepalives_info = None\<rparr>]"
  by (simp add: destructor_def ReadWriteTransaction_def notify_one_def karl_Add_def Let_def KarlInfo_default_def)

text \<open>The order of the claim as stated (signal and join first, the store last) is not the
  order of the code: in the trace of the destructor no commit comes after the join, and
  the commit comes before both the signal and the join.\<close>

theorem destructor_order_counterexample:
  "\<not> occurs_before Join Committed (trace (destructor karl0))
   \<and> occurs_before Committed NotifyOne (trace (destructor karl0))
   \<and> occurs_before Committed Join (trace (destructor karl0))"
  by (simp add: destructor_def ReadWriteTransaction_def notify_one_def karl_Add_def Let_def karl0_def)

section \<open>Stream before store\<close>

text \<open>A keepalive that is answered \<open>200 "OK\n"\<close> has left, in the part of the trace that
  the handler added, a publication followed by the commit.\<close>

lemma successful_ingest_trace:
  assumes "Serve_POST e r k = (\<lparr>code = 200, content = Text (''OK'' @ [CHR 0x0A])\<rparr>, k')"
  shows "\<exists>i. occurs_before (Published i) Committed (drop (length (trace k)) (trace k'))"
proof -
  obtain j k0 where cj: "choose_json e r k = (j, k0)" by (cases "choose_json e r k")
  have t0: "trace k0 = trace k \<or> trace k0 = trace k @ [OutboundGET (callback_url e r)]"
    using cj by (auto simp: choose_json_def split: if_splits)
  from assms cj obtain json body where
    run: "run_steps (ingest_steps e (remote_ip r) json body) k0 = (None, k')"
    by (auto simp: Serve_POST_def catch_def
        split: sum.splits option.splits if_splits prod.splits exn.splits)
  then have "\<exists>i post. trace k' = trace k0 @ [Published i, Committed] @ post"
    by (auto simp: ingest_steps_def Let_def publish_step_def Publish_def commit_step_def
          cache_step_def notify_one_def ReadWriteTransaction_def split: if_splits)
  with t0 show ?thesis by auto
qed



section \<open>Inconsistent URL and body\<close>

text \<open>
  C6. A POST keepalive whose status JSON (the body of the callback's response when the
  query has \<open>confirm\<close> and \<open>port\<close>, the body of the request otherwise) parses to a body whose
  codename differs from the \<open>codename\<close> of the query, or whose \<open>local_port\<close> differs from
  the \<open>port\<close> of the query, is answered \<open>400 "Inconsistent URL/body parameters.\n"\<close>;
  the stream and the store are left as they were, and the handler neither publishes nor
  commits.
\<close>

theorem inconsistent_parameters:
  assumes "http_method r = ''POST''"
    and "(if has (query r) ''confirm'' \<and> has (query r) ''port''
          then HTTP_GET e (callback_url e r) else Some (request_body r)) = Some json"
    and "ParseJSON_ClaireStatus e json = Some body"
    and "(has (query r) ''codename'' \<and> codename body \<noteq> qs_get (query r) ''codename'') \<or>
         (has (query r) ''port'' \<and> local_port body \<noteq> FromString_uint16 e (qs_get (query r) ''port''))"
  shows "fst (Serve e r k) =
           Reply \<lparr>code = 400, content = Text (''Inconsistent URL/body parameters.'' @ [CHR 0x0A])\<rparr>
     \<and> keepalives_stream (snd (Serve e r k)) = keepalives_stream k
     \<and> storage (snd (Serve e r k)) = storage k
     \<and> Committed \<notin> set (drop (length (trace k)) (trace (snd (Serve e r k))))
     \<and> (\<forall>i. Published i \<notin> set (drop (length (trace k)) (trace (snd (Serve e r k)))))"
proof -
  have n: "\<not> consistent e (query r) body"
    using assms(4) by (auto simp: consistent_def)
  obtain k0 where cj: "choose_json e r k = (Inr json, k0)"
    and k0: "k0 = k \<or> k0 = k\<lparr>trace := trace k @ [OutboundGET (callback_url e r)]\<rparr>"
    using assms(2) by (auto simp: choose_json_def split: if_splits)
  have "Serve e r k =
      (Reply \<lparr>code = 400, content = Text (''Inconsistent URL/body parameters.'' @ [CHR 0x0A])\<rparr>, k0)"
    using assms(1,3) n by (simp add: Serve_def Serve_POST_def cj)
  then show ?thesis using k0 by auto
qed

theorem inconsistent_parameters_witness:
  "Serve (env_at 100)
      (request ''POST'' [(''codename'', ''svcA''), (''port'', ''7000''), (''confirm'', ''1'')] ''svcA'')
      karl0 =
   (Reply \<lparr>code = 400, content = Text (''Inconsistent URL/body parameters.'' @ [CHR 0x0A])\<rparr>,
    karl0\<lparr>trace := [OutboundGET ''http://10.0.0.1:7000/.current?all&rnd1234567890'']\<rparr>)
   \<and> keepalives_stream (snd (Serve (env_at 100)
      (request ''POST'' [(''codename'', ''svcA''), (''port'', ''7000''), (''confirm'', ''1'')] ''svcA'')
      karl0)) = keepalives_stream karl0
   \<and> storage (snd (Serve (env_at 100)
      (request ''POST'' [(''codename'', ''svcA''), (''port'', ''7000''), (''confirm'', ''1'')] ''svcA'')
      karl0)) = storage karl0"
proof -
  let ?r = "request ''POST'' [(''codename'', ''svcA''), (''port'', ''7000''), (''confirm'', ''1'')] ''svcA''"
  have 1: "http_method ?r = ''POST''" by (simp add: request_def)
  have 2: "(if has (query ?r) ''confirm'' \<and> has (query ?r) ''port''
          then HTTP_GET (env_at 100) (callback_url (env_at 100) ?r) else Some (request_body ?r)) = Some ''svcB''"
    by (simp add: request_def has_def qs_get_def env_at_def callback_url_def CSRandomUInt_def
        ToString.simps)
  have 3: "ParseJSON_ClaireStatus (env_at 100) ''svcB'' = Some (status_svc ''svcB'' 100)"
    by (simp add: env_at_def)
  have 4: "(has (query ?r) ''codename'' \<and> codename (status_svc ''svcB'' 100) \<noteq> qs_get (query ?r) ''codename'') \<or>
         (has (query ?r) ''port'' \<and> local_port (status_svc ''svcB'' 100) \<noteq> FromString_uint16 (env_at 100) (qs_get (query ?r) ''port''))"
    by (simp add: request_def has_def qs_get_def status_svc_def)
  from inconsistent_parameters[OF 1 2 3 4, of karl0] show ?thesis
    by (simp add: ingest_defs)
qed

section \<open>The status page\<close>

lemma wrap64_range: "- (2 ^ 63) \<le> wrap64 x \<and> wrap64 x < 2 ^ 63"
  unfolding wrap64_def
  using pos_mod_bound[of "2 ^ 64" "x + 2 ^ 63"] pos_mod_sign[of "2 ^ 64" "x + 2 ^ 63"]
  by simp




lemma status_step_window [simp]:
  "sp_from (status_step e timeout ent acc) = sp_from acc"
  "sp_to (status_step e timeout ent acc) = sp_to acc"
  by (simp_all add: status_step_def contribute_def Let_def)

lemma fold_status_step_window [simp]:
  "sp_from (fold (status_step e timeout) es acc) = sp_from acc"
  "sp_to (fold (status_step e timeout) es acc) = sp_to acc"
  by (induction es arbitrary: acc) simp_all


lemma in_window_fold [simp]:
  "in_window (fold (status_step e timeout) es acc) = in_window acc"
  by (simp add: in_window_def fun_eq_iff)


lemma report_fold:
  "report_for_codename (fold (status_step e timeout) es acc) c =
     (let fs = filter (\<lambda>ent. in_window acc ent \<and> codename (keepalive (entry ent)) = c) es
      in if fs = [] then report_for_codename acc c
         else Some (report_of e timeout (last fs)))"
proof (induction es rule: rev_induct)
  case Nil
  then show ?case by simp
next
  case (snoc ent es)
  then show ?case
    by (simp add: status_step_def[of e timeout ent] contribute_def Let_def in_window_def)
qed


lemma window_of_status:
  "sp_from (BuildStatusAndRespondWithIt e r k) = window_from e (query r)"
  "sp_to (BuildStatusAndRespondWithIt e r k) =
     window_to e (query r) (window_from e (query r))"
  by (simp_all add: BuildStatusAndRespondWithIt_def Let_def)



text \<open>Two windows by minutes, at the clock reading 1000000000: \<open>m=5\<close> starts 300000000
  microseconds before now, \<open>m=1.5\<close> starts 90000000 microseconds before now; both end
  now.\<close>

lemma status_window_minutes:
  "sp_from (BuildStatusAndRespondWithIt (env_at 1000000000) (request ''GET'' [(''m'', ''5'')] [])
      karl0) = 700000000
   \<and> sp_to (BuildStatusAndRespondWithIt (env_at 1000000000) (request ''GET'' [(''m'', ''5'')] [])
      karl0) = 1000000000
   \<and> sp_from (BuildStatusAndRespondWithIt (env_at 1000000000)
      (request ''GET'' [(''m'', ''1.5'')] []) karl0) = 910000000"
  by (simp add: window_of_status window_from_def window_to_def has_def qs_get_def
      request_def env_at_def wrap64_def static_cast_int64_def)

text \<open>
  C9. For a codename with at least one stream entry in the window, the report of the
  codename is built from the last such entry of the stream: it carries the dependencies and
  the runtime of that keepalive, and it is \<open>up\<close> exactly when now minus the timestamp of the
  entry is below \<open>service_timeout_interval\<close>; otherwise it is \<open>down\<close> and carries the
  \<open>uptime\<close> that the keepalive reported.
\<close>

theorem latest_report:
  assumes "fs = filter (\<lambda>ent. sp_from (BuildStatusAndRespondWithIt e r k) \<le> us (idx_ts ent) \<and>
                             us (idx_ts ent) < sp_to (BuildStatusAndRespondWithIt e r k) \<and>
                             codename (keepalive (entry ent)) = c)
                     (persistence (keepalives_stream k))"
    and "fs \<noteq> []"
  shows "\<exists>rep. report_for_codename (BuildStatusAndRespondWithIt e r k) c = Some rep
     \<and> pr_dependencies rep = dependencies (keepalive (entry (last fs)))
     \<and> pr_runtime rep = runtime (keepalive (entry (last fs)))
     \<and> currently rep =
        (if Now e - us (idx_ts (last fs)) < service_timeout_interval k
         then current_service_state_up
                (start_time_epoch_microseconds (keepalive (entry (last fs))))
                (TimeIntervalAsHumanReadableString e (Now e - us (idx_ts (last fs))) @ '' ago'')
                (us (idx_ts (last fs)))
                (TimeIntervalAsHumanReadableString e
                   (uptime_epoch_microseconds (keepalive (entry (last fs))) +
                    (Now e - us (idx_ts (last fs)))))
         else current_service_state_down
                (start_time_epoch_microseconds (keepalive (entry (last fs))))
                (TimeIntervalAsHumanReadableString e (Now e - us (idx_ts (last fs))) @ '' ago'')
                (us (idx_ts (last fs)))
                (uptime (keepalive (entry (last fs)))))"
proof -
  have "report_for_codename (BuildStatusAndRespondWithIt e r k) c =
          Some (report_of e (service_timeout_interval k) (last fs))"
    using assms(2) unfolding assms(1) window_of_status
    by (simp add: BuildStatusAndRespondWithIt_def Let_def report_fold Iterate_def in_window_def)
  then show ?thesis
    by (simp add: report_of_def Let_def)
qed

lemma karl_after_two_eval:
  "persistence (keepalives_stream (karl_after_two 0)) =
     [\<lparr>idx_ts = \<lparr>index = 0, us = 101\<rparr>,
       entry = \<lparr>location = \<lparr>ip = ''10.0.0.1'', port = 7000, prefix = ''/''\<rparr>,
                keepalive = ClaireStatus.extend (status_svc ''svcA'' 100) (claire_status_t.fields None)\<rparr>\<rparr>,
      \<lparr>idx_ts = \<lparr>index = 1, us = 201\<rparr>,
       entry = \<lparr>location = \<lparr>ip = ''10.0.0.1'', port = 7000, prefix = ''/''\<rparr>,
                keepalive = ClaireStatus.extend (status_svc ''svcA'' 200) (claire_status_t.fields None)\<rparr>\<rparr>]"
  "service_timeout_interval (karl_after_two 0) = 45000000"
  by (simp_all add: karl_after_two_def karl_after_one_def ingest_defs)

theorem latest_report_witness:
  "report_for_codename
     (BuildStatusAndRespondWithIt (env_at 300) (request ''GET'' [] []) (karl_after_two 0)) ''svcA'' =
     Some \<lparr>currently = current_service_state_up 0 ''some time ago'' 201 ''some time'',
           pr_dependencies = [], pr_runtime = None\<rparr>
   \<and> report_for_codename
     (BuildStatusAndRespondWithIt (env_at 50000000) (request ''GET'' [] []) (karl_after_two 0)) ''svcA'' =
     Some \<lparr>currently = current_service_state_down 0 ''some time ago'' 201 ''some time'',
           pr_dependencies = [], pr_runtime = None\<rparr>"
  using latest_report[OF refl, of "env_at 300" "request ''GET'' [] []" "karl_after_two 0" "''svcA''"]
        latest_report[OF refl, of "env_at 50000000" "request ''GET'' [] []" "karl_after_two 0" "''svcA''"]
  by (auto simp: karl_after_two_eval window_of_status window_from_def window_to_def has_def
      wrap64_def static_cast_int64_def
      request_def env_at_def status_svc_def ClaireStatus.defs claire_status_t.defs)

end
